theory Spec2Isabelle
  imports Complex_Main "HOL-Library.Sublist"
begin

section \<open>JavaScript values as the rule engine sees them\<close>

text \<open>
  Rules, inputs and expectations are parsed YAML, so every value the engine touches is
  one of: \<open>undefined\<close> (only ever the result of reading an absent property), \<open>null\<close>,
  a boolean, a number, a string, an array or a plain object.

  A number is an IEEE double. The engine only compares numbers (\<open>===\<close>, \<open>includes\<close>,
  \<open>>=\<close>, \<open><=\<close>, \<open>>\<close>, \<open><\<close>), and on finite doubles these comparisons are the
  comparisons of the rationals they denote (\<open>-0\<close> and \<open>+0\<close> are equal under each of
  them), so a finite number is its rational value; \<open>NaN\<close> and the two infinities, which
  YAML can write as \<open>.nan\<close> and \<open>.inf\<close>, are separate constructors.

  An object is the list of its own enumerable properties in the order
  \<open>Object.entries\<close> yields them; its keys are distinct. The YAML parser defines every
  key of a mapping as an own property, also a key such as \<open>__proto__\<close> or \<open>toString\<close>
  that \<open>Object.prototype\<close> has too, and no parsed value is a function.
\<close>

datatype jsnum = NaN | NegInf | Fin rat | PosInf

datatype jsval =
    JUndefined
  | JNull
  | JBool bool
  | JNum jsnum
  | JStr string
  | JArr "jsval list"
  | JObj "(string \<times> jsval) list"

datatype jstype = TUndefined | TObject | TBoolean | TNumber | TString

datatype js_error = TypeError  \<comment> \<open>the exception JavaScript throws\<close>

text \<open>
  The engine's reading of a string as a number (\<open>StringToNumber\<close>: the grammar of
  numeric literals and the rounding to a double) is not part of the rule engine. It is a
  parameter \<open>rt\<close> of every function that can reach a comparison, and it is consulted
  only where JavaScript converts a string bound.
\<close>

type_synonym runtime = "string \<Rightarrow> jsnum"

fun typeof :: "jsval \<Rightarrow> jstype" where
  "typeof JUndefined = TUndefined"
| "typeof JNull = TObject"
| "typeof (JBool b) = TBoolean"
| "typeof (JNum n) = TNumber"
| "typeof (JStr s) = TString"
| "typeof (JArr xs) = TObject"
| "typeof (JObj kvs) = TObject"

text \<open>\<open>a < b\<close> on numbers; every comparison with \<open>NaN\<close> is false.\<close>

fun num_lt :: "jsnum \<Rightarrow> jsnum \<Rightarrow> bool" where
  "num_lt NaN b = False"
| "num_lt a NaN = False"
| "num_lt NegInf NegInf = False"
| "num_lt NegInf b = True"
| "num_lt a NegInf = False"
| "num_lt PosInf b = False"
| "num_lt a PosInf = True"
| "num_lt (Fin x) (Fin y) = (x < y)"

definition num_gt :: "jsnum \<Rightarrow> jsnum \<Rightarrow> bool" where
  "num_gt a b = num_lt b a"

definition num_eq :: "jsnum \<Rightarrow> jsnum \<Rightarrow> bool" where
  "num_eq a b = (a \<noteq> NaN \<and> a = b)"

definition num_le :: "jsnum \<Rightarrow> jsnum \<Rightarrow> bool" where
  "num_le a b = (num_lt a b \<or> num_eq a b)"

definition num_ge :: "jsnum \<Rightarrow> jsnum \<Rightarrow> bool" where
  "num_ge a b = num_le b a"

text \<open>
  \<open>a === b\<close>. Two primitives are equal when they have the same type and value, except
  that \<open>NaN\<close> is not equal to itself. Arrays and objects are compared by reference; the
  two operands of every \<open>===\<close> in the engine come from separately parsed documents (a
  rule file and a test file), so two of them are never the same reference.
\<close>

fun strict_eq :: "jsval \<Rightarrow> jsval \<Rightarrow> bool" where
  "strict_eq JUndefined JUndefined = True"
| "strict_eq JNull JNull = True"
| "strict_eq (JBool a) (JBool b) = (a = b)"
| "strict_eq (JNum a) (JNum b) = num_eq a b"
| "strict_eq (JStr a) (JStr b) = (a = b)"
| "strict_eq a b = False"

text \<open>SameValueZero, the comparison of \<open>Array.prototype.includes\<close>: \<open>===\<close>, but
  \<open>NaN\<close> equals \<open>NaN\<close>.\<close>

fun same_value_zero :: "jsval \<Rightarrow> jsval \<Rightarrow> bool" where
  "same_value_zero (JNum a) (JNum b) = (a = b)"
| "same_value_zero a b = strict_eq a b"

text \<open>The truthiness test of \<open>c ? x : y\<close>.\<close>

fun truthy :: "jsval \<Rightarrow> bool" where
  "truthy JUndefined = False"
| "truthy JNull = False"
| "truthy (JBool b) = b"
| "truthy (JNum n) = (n \<noteq> NaN \<and> n \<noteq> Fin 0)"
| "truthy (JStr s) = (s \<noteq> [])"
| "truthy (JArr xs) = True"
| "truthy (JObj kvs) = True"

subsection \<open>Own properties\<close>

text \<open>The decimal numeral of an array index, as \<open>Object.keys\<close> of an array gives it.\<close>

fun string_of_nat :: "nat \<Rightarrow> string" where
  "string_of_nat n =
     (if n < 10 then [char_of (48 + n)]
      else string_of_nat (n div 10) @ [char_of (48 + n mod 10)])"

declare string_of_nat.simps [simp del]

definition indexed :: "'a list \<Rightarrow> (string \<times> 'a) list" where
  "indexed xs = zip (map string_of_nat [0..<length xs]) xs"

text \<open>
  \<open>Object.entries v\<close> for a value that is not \<open>null\<close> or \<open>undefined\<close> (for those it
  throws, which each caller models): the properties of an object, the indexed elements of
  an array, the indexed characters of a string, nothing for a number or a boolean.
\<close>

fun own_entries :: "jsval \<Rightarrow> (string \<times> jsval) list" where
  "own_entries (JObj kvs) = kvs"
| "own_entries (JArr xs) = indexed xs"
| "own_entries (JStr s) = indexed (map (\<lambda>c. JStr [c]) s)"
| "own_entries v = []"

definition own_keys :: "jsval \<Rightarrow> string list" where
  "own_keys v = map fst (own_entries v)"

text \<open>
  \<open>rec.k\<close> on a record (\<open>Record<string, unknown>\<close>) for a name \<open>k\<close> that
  \<open>Object.prototype\<close> does not define (\<open>rule_type\<close>, \<open>matched_rule\<close>): the own
  property, or \<open>undefined\<close> when the key is absent.
\<close>

definition lookup :: "(string \<times> jsval) list \<Rightarrow> string \<Rightarrow> jsval" where
  "lookup kvs k = (case map_of kvs k of None \<Rightarrow> JUndefined | Some v \<Rightarrow> v)"

text \<open>
  \<open>v[k]\<close> and \<open>v.k\<close> for a value that is not \<open>null\<close> or \<open>undefined\<close>, where \<open>k\<close> is
  a name that no prototype defines (\<open>gte\<close>, \<open>lte\<close>, \<open>gt\<close>, \<open>lt\<close>, \<open>in\<close>, \<open>all\<close>,
  \<open>any\<close>, \<open>rule_type\<close>) or one of the own keys of \<open>v\<close>.
\<close>

definition get_prop :: "jsval \<Rightarrow> string \<Rightarrow> jsval" where
  "get_prop v k = lookup (own_entries v) k"

text \<open>
  \<open>rec[key]\<close> on a plain object for a key that comes from data (\<open>input[field]\<close>,
  \<open>actual.output[key]\<close>). An own property wins. Otherwise the key is looked up in
  \<open>Object.prototype\<close>: \<open>__proto__\<close> reads as \<open>Object.prototype\<close> itself, an object with
  no enumerable key of its own and a reference of its own, so it behaves as a fresh empty
  object does; the name of a method reads as that function; any other key reads as
  \<open>undefined\<close>.
\<close>

definition prototype_methods :: "string list" where
  "prototype_methods =
     [''constructor'', ''__defineGetter__'', ''__defineSetter__'', ''hasOwnProperty'',
      ''__lookupGetter__'', ''__lookupSetter__'', ''isPrototypeOf'',
      ''propertyIsEnumerable'', ''toString'', ''valueOf'', ''toLocaleString'']"

datatype jsread = Value jsval | Method string

definition read :: "(string \<times> jsval) list \<Rightarrow> string \<Rightarrow> jsread" where
  "read kvs k =
     (case map_of kvs k of
        Some v \<Rightarrow> Value v
      | None \<Rightarrow>
          if k = ''__proto__'' then Value (JObj [])
          else if k \<in> set prototype_methods then Method k
          else Value JUndefined)"

text \<open>\<open>Array.isArray\<close>, and the elements of an array.\<close>

fun isArray :: "jsval \<Rightarrow> bool" where
  "isArray (JArr xs) = True"
| "isArray v = False"

fun elements :: "jsval \<Rightarrow> jsval list" where
  "elements (JArr xs) = xs"
| "elements v = []"

text \<open>\<open>typeof v === 'object' && v !== null\<close>: an array or a plain object.\<close>

fun is_object :: "jsval \<Rightarrow> bool" where
  "is_object (JArr xs) = True"
| "is_object (JObj kvs) = True"
| "is_object v = False"

section \<open>The condition matcher\<close>

text \<open>
  \<open>xs.every(f)\<close> and \<open>xs.some(f)\<close> for a callback that may throw: elements are
  visited in order, \<open>every\<close> stops at the first \<open>false\<close>, \<open>some\<close> at the first
  \<open>true\<close>, and an exception of the callback ends the call.
\<close>

fun every_r :: "('a \<Rightarrow> js_error + bool) \<Rightarrow> 'a list \<Rightarrow> js_error + bool" where
  "every_r f [] = Inr True"
| "every_r f (x # xs) =
     (case f x of
        Inl e \<Rightarrow> Inl e
      | Inr ok \<Rightarrow> if ok then every_r f xs else Inr False)"

fun some_r :: "('a \<Rightarrow> js_error + bool) \<Rightarrow> 'a list \<Rightarrow> js_error + bool" where
  "some_r f [] = Inr False"
| "some_r f (x # xs) =
     (case f x of
        Inl e \<Rightarrow> Inl e
      | Inr ok \<Rightarrow> if ok then Inr True else some_r f xs)"

lemma every_r_cong [fundef_cong]:
  "xs = ys \<Longrightarrow> (\<And>x. x \<in> set ys \<Longrightarrow> f x = g x) \<Longrightarrow> every_r f xs = every_r g ys"
  by (induction ys arbitrary: xs) (auto split: sum.splits)

lemma some_r_cong [fundef_cong]:
  "xs = ys \<Longrightarrow> (\<And>x. x \<in> set ys \<Longrightarrow> f x = g x) \<Longrightarrow> some_r f xs = some_r g ys"
  by (induction ys arbitrary: xs) (auto split: sum.splits)

text \<open>
  \<^verbatim>\<open>
  function isComparisonOperator(value: unknown): value is ComparisonOperator {
    if (typeof value !== 'object' || value === null) return false;
    const keys = Object.keys(value);
    return keys.some((k) => ['gte', 'lte', 'gt', 'lt'].includes(k));
  }
  function isInOperator(value: unknown): value is InOperator {
    if (typeof value !== 'object' || value === null) return false;
    return 'in' in value && Array.isArray((value as InOperator).in);
  }
  \<close>
\<close>

definition isComparisonOperator :: "jsval \<Rightarrow> bool" where
  "isComparisonOperator v =
     (if typeof v \<noteq> TObject \<or> v = JNull then False
      else list_ex (\<lambda>k. k \<in> set [''gte'', ''lte'', ''gt'', ''lt'']) (own_keys v))"

definition isInOperator :: "jsval \<Rightarrow> bool" where
  "isInOperator v =
     (if typeof v \<noteq> TObject \<or> v = JNull then False
      else ''in'' \<in> set (own_keys v) \<and> isArray (get_prop v ''in''))"

text \<open>
  The comparison \<open>actual >= bound\<close> of a number with any value converts the value to a
  number first (\<open>ToPrimitive\<close> with hint number, then \<open>ToNumber\<close>).

  \<open>ToPrimitive\<close> of a plain object calls the inherited \<open>valueOf\<close>, which returns the
  object itself, and then \<open>toString\<close>. The inherited \<open>toString\<close> gives
  \<open>"[object Object]"\<close>; an own property \<open>toString\<close> is data, not a function, and then
  nothing is left to call and a \<open>TypeError\<close> is thrown. \<open>ToPrimitive\<close> of an array
  joins the strings of its elements, and the string of an element that is an object is
  made the same way. So the conversion throws exactly on an object that has an own
  \<open>toString\<close> key, alone or inside arrays.
\<close>

fun converts :: "jsval \<Rightarrow> bool" where
  "converts (JObj kvs) = (''toString'' \<notin> set (map fst kvs))"
| "converts (JArr xs) = list_all converts xs"
| "converts v = True"

text \<open>The empty string reads as \<open>0\<close>; every other string is read by the runtime.\<close>

definition StringToNumber :: "runtime \<Rightarrow> string \<Rightarrow> jsnum" where
  "StringToNumber rt s = (if s = [] then Fin 0 else rt s)"

text \<open>
  The number that a value converts to, when the conversion does not throw.
  \<^item> \<open>null\<close> is \<open>0\<close>, \<open>true\<close> is \<open>1\<close>, \<open>false\<close> is \<open>0\<close>, \<open>undefined\<close> is \<open>NaN\<close>, and
    a string is read as a number.
  \<^item> A plain object becomes \<open>"[object Object]"\<close>, which reads as \<open>NaN\<close>.
  \<^item> An array becomes \<open>xs.join(",")\<close>. For no element this is the empty string,
    \<open>0\<close>. For two or more it holds a comma, which no numeric literal does: \<open>NaN\<close>.
    For one element it is the string of that element, \<open>joined_item\<close>: empty for
    \<open>null\<close> and \<open>undefined\<close>; \<open>"true"\<close> or \<open>"false"\<close> for a boolean, \<open>NaN\<close>; the
    digits of a number, which read back as the same number; the string itself; and for
    an object or array the string made as above.
\<close>

fun ToNumber_value :: "runtime \<Rightarrow> jsval \<Rightarrow> jsnum"
  and joined :: "runtime \<Rightarrow> jsval list \<Rightarrow> jsnum"
  and joined_item :: "runtime \<Rightarrow> jsval \<Rightarrow> jsnum" where
  "ToNumber_value rt JUndefined = NaN"
| "ToNumber_value rt JNull = Fin 0"
| "ToNumber_value rt (JBool b) = (if b then Fin 1 else Fin 0)"
| "ToNumber_value rt (JNum n) = n"
| "ToNumber_value rt (JStr s) = StringToNumber rt s"
| "ToNumber_value rt (JObj kvs) = NaN"
| "ToNumber_value rt (JArr xs) = joined rt xs"
| "joined rt [] = Fin 0"
| "joined rt [x] = joined_item rt x"
| "joined rt (x # y # zs) = NaN"
| "joined_item rt JUndefined = Fin 0"
| "joined_item rt JNull = Fin 0"
| "joined_item rt (JBool b) = NaN"
| "joined_item rt (JNum n) = n"
| "joined_item rt (JStr s) = StringToNumber rt s"
| "joined_item rt (JObj kvs) = NaN"
| "joined_item rt (JArr xs) = joined rt xs"

definition ToNumber :: "runtime \<Rightarrow> jsval \<Rightarrow> js_error + jsnum" where
  "ToNumber rt v = (if converts v then Inr (ToNumber_value rt v) else Inl TypeError)"

text \<open>
  One line of \<open>compareValue\<close>:
  \<^verbatim>\<open>if (operator.gte !== undefined && !(actual >= operator.gte)) return false;\<close>
  The result is whether the line lets the function go on.
\<close>

definition bound_ok ::
    "runtime \<Rightarrow> (jsnum \<Rightarrow> jsnum \<Rightarrow> bool) \<Rightarrow> jsnum \<Rightarrow> jsval \<Rightarrow> js_error + bool" where
  "bound_ok rt cmp a bound =
     (if bound = JUndefined then Inr True
      else (case ToNumber rt bound of Inl e \<Rightarrow> Inl e | Inr b \<Rightarrow> Inr (cmp a b)))"

text \<open>Sequencing of two checks: the second runs only when the first returned \<open>true\<close>.\<close>

definition and_then :: "js_error + bool \<Rightarrow> js_error + bool \<Rightarrow> js_error + bool" where
  "and_then r k = (case r of Inl e \<Rightarrow> Inl e | Inr ok \<Rightarrow> if ok then k else Inr False)"

text \<open>
  \<^verbatim>\<open>
  function compareValue(actual: unknown, operator: ComparisonOperator): boolean {
    if (typeof actual !== 'number') return false;
    if (operator.gte !== undefined && !(actual >= operator.gte)) return false;
    if (operator.lte !== undefined && !(actual <= operator.lte)) return false;
    if (operator.gt !== undefined && !(actual > operator.gt)) return false;
    if (operator.lt !== undefined && !(actual < operator.lt)) return false;
    return true;
  }
  \<close>
\<close>

fun compareValue :: "runtime \<Rightarrow> jsval \<Rightarrow> jsval \<Rightarrow> js_error + bool" where
  "compareValue rt (JNum a) operator =
     and_then (bound_ok rt num_ge a (get_prop operator ''gte''))
    (and_then (bound_ok rt num_le a (get_prop operator ''lte''))
    (and_then (bound_ok rt num_gt a (get_prop operator ''gt''))
    (and_then (bound_ok rt num_lt a (get_prop operator ''lt''))
    (Inr True))))"
| "compareValue rt actual operator = Inr False"

text \<open>
  \<^verbatim>\<open>
  function checkInOperator(actual: unknown, operator: InOperator): boolean {
    return operator.in.includes(actual as string | number | boolean);
  }
  \<close>
\<close>

definition checkInOperator :: "jsval \<Rightarrow> jsval \<Rightarrow> bool" where
  "checkInOperator actual operator =
     list_ex (\<lambda>e. same_value_zero e actual) (elements (get_prop operator ''in''))"

text \<open>
  \<^verbatim>\<open>
  function matchCondition(condition: ConditionValue, actual: unknown): boolean {
    if (isComparisonOperator(condition)) return compareValue(actual, condition);
    if (isInOperator(condition)) return checkInOperator(actual, condition);
    return actual === condition;
  }
  \<close>
\<close>

definition matchCondition :: "runtime \<Rightarrow> jsval \<Rightarrow> jsval \<Rightarrow> js_error + bool" where
  "matchCondition rt condition actual =
     (if isComparisonOperator condition then compareValue rt actual condition
      else if isInOperator condition then Inr (checkInOperator actual condition)
      else Inr (strict_eq actual condition))"

text \<open>
  The body of the loop over \<open>Object.entries(conditions)\<close> in \<open>matchConditions\<close>. When
  \<open>input[field]\<close> reads an inherited method, \<open>matchCondition\<close> returns \<open>false\<close>: a
  function is not a number, is an element of no parsed list, and is not \<open>===\<close> to any
  constraint.
\<close>

definition matchField ::
    "runtime \<Rightarrow> (string \<times> jsval) list \<Rightarrow> string \<times> jsval \<Rightarrow> js_error + bool" where
  "matchField rt input fc =
     (if fst fc = ''all'' \<or> fst fc = ''any'' then Inr True
      else (case read input (fst fc) of
              Value actualValue \<Rightarrow> matchCondition rt (snd fc) actualValue
            | Method m \<Rightarrow> Inr False))"

lemma size_elements_lt: "c \<in> set (elements v) \<Longrightarrow> size c < size v"
proof (cases v)
  case (JArr xs)
  assume "c \<in> set (elements v)"
  with JArr have "c \<in> set xs" by simp
  then have "size c \<le> size_list size xs" by (induction xs) auto
  with JArr show ?thesis by simp
qed simp_all

lemma size_indexed_le: "(k, v) \<in> set (indexed xs) \<Longrightarrow> size v \<le> size_list size xs"
proof -
  assume "(k, v) \<in> set (indexed xs)"
  then have "v \<in> set xs" unfolding indexed_def by (rule set_zip_rightD)
  then show ?thesis by (induction xs) auto
qed

lemma size_get_prop_le: "size (get_prop v k) \<le> size v"
proof (cases "map_of (own_entries v) k")
  case None
  then show ?thesis by (simp add: get_prop_def lookup_def)
next
  case (Some x)
  then have mem: "(k, x) \<in> set (own_entries v)" by (rule map_of_SomeD)
  have "size x \<le> size v"
  proof (cases v)
    case (JObj kvs)
    with mem have "(k, x) \<in> set kvs" by simp
    then have "size x \<le> size_list (size_prod (\<lambda>_. 0) size) kvs"
      by (induction kvs) auto
    with JObj show ?thesis by simp
  next
    case (JArr xs)
    with mem have "size x \<le> size_list size xs" by (simp add: size_indexed_le)
    with JArr show ?thesis by simp
  next
    case (JStr s)
    with mem have "x \<in> set (map (\<lambda>c. JStr [c]) s)"
      by (auto simp: indexed_def dest: set_zip_rightD)
    then show ?thesis by auto
  qed (use mem in simp_all)
  with Some show ?thesis by (simp add: get_prop_def lookup_def)
qed

text \<open>
  \<^verbatim>\<open>
  function matchConditions(conditions: Condition, input: Record<string, unknown>): boolean {
    for (const [field, constraint] of Object.entries(conditions)) {
      if (field === 'all' || field === 'any') continue;
      const actualValue = input[field];
      if (!matchCondition(constraint as ConditionValue, actualValue)) return false;
    }
    if ('all' in conditions && Array.isArray(conditions.all)) {
      if (!conditions.all.every((c) => matchConditions(c, input))) return false;
    }
    if ('any' in conditions && Array.isArray(conditions.any)) {
      if (!conditions.any.some((c) => matchConditions(c, input))) return false;
    }
    return true;
  }
  \<close>
  \<open>Object.entries\<close> throws on \<open>null\<close> and \<open>undefined\<close>, and \<open>'all' in conditions\<close>
  throws on every other value that is not an array or an object; on those it holds iff
  \<open>all\<close> is one of the keys.
\<close>

function matchConditions ::
    "runtime \<Rightarrow> jsval \<Rightarrow> (string \<times> jsval) list \<Rightarrow> js_error + bool" where
  "matchConditions rt conditions input =
     (if conditions = JUndefined \<or> conditions = JNull then Inl TypeError
      else
        and_then (every_r (matchField rt input) (own_entries conditions))
       (if \<not> is_object conditions then Inl TypeError
        else
          and_then
            (if ''all'' \<in> set (own_keys conditions) \<and> isArray (get_prop conditions ''all'')
             then every_r (\<lambda>c. matchConditions rt c input)
                    (elements (get_prop conditions ''all''))
             else Inr True)
            (and_then
              (if ''any'' \<in> set (own_keys conditions) \<and> isArray (get_prop conditions ''any'')
               then some_r (\<lambda>c. matchConditions rt c input)
                      (elements (get_prop conditions ''any''))
               else Inr True)
              (Inr True))))"
  by pat_completeness auto
termination
proof (relation "measure (\<lambda>(rt, c, i). size c)")
  show "wf (measure (\<lambda>(rt, c, i). size c))" by simp
next
  fix rt :: runtime and conditions :: jsval and input :: "(string \<times> jsval) list" and c
  assume "c \<in> set (elements (get_prop conditions ''all''))"
  then have "size c < size (get_prop conditions ''all'')" by (rule size_elements_lt)
  also have "\<dots> \<le> size conditions" by (rule size_get_prop_le)
  finally show "((rt, c, input), (rt, conditions, input)) \<in> measure (\<lambda>(rt, c, i). size c)"
    by simp
next
  fix rt :: runtime and conditions :: jsval and input :: "(string \<times> jsval) list" and c
  assume "c \<in> set (elements (get_prop conditions ''any''))"
  then have "size c < size (get_prop conditions ''any'')" by (rule size_elements_lt)
  also have "\<dots> \<le> size conditions" by (rule size_get_prop_le)
  finally show "((rt, c, input), (rt, conditions, input)) \<in> measure (\<lambda>(rt, c, i). size c)"
    by simp
qed

declare matchConditions.simps [simp del]

text \<open>
  The condition trees on which the matcher cannot throw: an array or object in which
  every bound of a comparison operator converts to a number, and whose \<open>all\<close> and \<open>any\<close>
  sequences, where they are arrays, hold only such trees.
\<close>

definition bounds_convert :: "jsval \<Rightarrow> bool" where
  "bounds_convert v =
     list_all (\<lambda>k. converts (get_prop v k)) [''gte'', ''lte'', ''gt'', ''lt'']"

definition sound_field :: "string \<times> jsval \<Rightarrow> bool" where
  "sound_field fc =
     (fst fc = ''all'' \<or> fst fc = ''any''
      \<or> \<not> isComparisonOperator (snd fc) \<or> bounds_convert (snd fc))"

function well_shaped :: "jsval \<Rightarrow> bool" where
  "well_shaped c =
     (is_object c
      \<and> list_all sound_field (own_entries c)
      \<and> list_all well_shaped (elements (get_prop c ''all''))
      \<and> list_all well_shaped (elements (get_prop c ''any'')))"
  by pat_completeness auto
termination
proof (relation "measure size")
  show "wf (measure size)" by simp
next
  fix c x :: jsval
  assume "x \<in> set (elements (get_prop c ''all''))"
  then have "size x < size (get_prop c ''all'')" by (rule size_elements_lt)
  also have "\<dots> \<le> size c" by (rule size_get_prop_le)
  finally show "(x, c) \<in> measure size" by simp
next
  fix c x :: jsval
  assume "x \<in> set (elements (get_prop c ''any''))"
  then have "size x < size (get_prop c ''any'')" by (rule size_elements_lt)
  also have "\<dots> \<le> size c" by (rule size_get_prop_le)
  finally show "(x, c) \<in> measure size" by simp
qed

declare well_shaped.simps [simp del]

section \<open>The rule evaluator\<close>

text \<open>
  A rule as the loader passes it on: \<open>id\<close> is a non-empty string, \<open>when\<close> is any value
  but \<open>undefined\<close>, \<open>then\<close> has \<open>typeof\<close> \<open>'object'\<close>. The fields are prefixed because
  \<open>id\<close>, \<open>when\<close> and \<open>then\<close> are taken in Isabelle.
\<close>

record rule =
  rule_id :: string
  rule_when :: jsval
  rule_then :: jsval

record EvaluationResult =
  matched_rule :: "string option"   \<comment> \<open>\<open>None\<close> is \<open>null\<close>\<close>
  outputs :: "(string \<times> jsval) list"   \<comment> \<open>the field \<open>output\<close>\<close>

text \<open>
  \<^verbatim>\<open>
  export function evaluate(rules: Rule[], input: Record<string, unknown>): EvaluationResult {
    for (const rule of rules) {
      if (matchConditions(rule.when, input)) {
        return { matched_rule: rule.id, output: { ...rule.then } };
      }
    }
    return { matched_rule: null, output: {} };
  }
  \<close>
  The spread \<open>{ ...v }\<close> copies the own enumerable properties of \<open>v\<close>, none for \<open>null\<close>.
\<close>

fun evaluate ::
    "runtime \<Rightarrow> rule list \<Rightarrow> (string \<times> jsval) list \<Rightarrow> js_error + EvaluationResult" where
  "evaluate rt [] input = Inr \<lparr>matched_rule = None, outputs = []\<rparr>"
| "evaluate rt (r # rules) input =
     (case matchConditions rt (rule_when r) input of
        Inl e \<Rightarrow> Inl e
      | Inr m \<Rightarrow>
          if m then Inr \<lparr>matched_rule = Some (rule_id r), outputs = own_entries (rule_then r)\<rparr>
          else evaluate rt rules input)"

text \<open>
  \<^verbatim>\<open>
  const filteredRules = rules.filter((rule) => {
    const ruleTypeCondition = rule.when.rule_type;
    return ruleTypeCondition === ruleType;
  });
  \<close>
  Reading a property of \<open>null\<close> or \<open>undefined\<close> throws. \<open>ruleType\<close> is declared a
  string, but \<open>runTest\<close> passes whatever truthy value the input holds, so it is a value here.
\<close>

fun filterByType :: "rule list \<Rightarrow> jsval \<Rightarrow> js_error + rule list" where
  "filterByType [] ruleType = Inr []"
| "filterByType (r # rules) ruleType =
     (if rule_when r = JUndefined \<or> rule_when r = JNull then Inl TypeError
      else
        (case filterByType rules ruleType of
           Inl e \<Rightarrow> Inl e
         | Inr rest \<Rightarrow>
             Inr (if strict_eq (get_prop (rule_when r) ''rule_type'') ruleType
                  then r # rest else rest)))"

definition evaluateByType ::
    "runtime \<Rightarrow> rule list \<Rightarrow> jsval \<Rightarrow> (string \<times> jsval) list
      \<Rightarrow> js_error + EvaluationResult" where
  "evaluateByType rt rules ruleType input =
     (case filterByType rules ruleType of
        Inl e \<Rightarrow> Inl e
      | Inr filteredRules \<Rightarrow> evaluate rt filteredRules input)"

section \<open>The test runner\<close>

lemma size_get_prop_lt:
  assumes "is_object a" and "key \<in> set (own_keys a)"
  shows "size (get_prop a key) < size a"
proof -
  from assms(2) obtain x where x: "map_of (own_entries a) key = Some x"
    by (auto simp: own_keys_def dest: weak_map_of_SomeI)
  then have mem: "(key, x) \<in> set (own_entries a)" by (rule map_of_SomeD)
  have "size x < size a"
  proof (cases a)
    case (JObj kvs)
    with mem have "(key, x) \<in> set kvs" by simp
    then have "size x \<le> size_list (size_prod (\<lambda>_. 0) size) kvs"
      by (induction kvs) auto
    with JObj show ?thesis by simp
  next
    case (JArr xs)
    with mem have "size x \<le> size_list size xs" by (simp add: size_indexed_le)
    with JArr show ?thesis by simp
  qed (use assms(1) in simp_all)
  with x show ?thesis by (simp add: get_prop_def lookup_def)
qed

text \<open>
  \<^verbatim>\<open>
  function deepEqual(a: unknown, b: unknown): boolean {
    if (a === b) return true;
    if (typeof a !== typeof b) return false;
    if (a === null || b === null) return a === b;
    if (typeof a === 'object' && typeof b === 'object') {
      const aObj = a as Record<string, unknown>;
      const bObj = b as Record<string, unknown>;
      const aKeys = Object.keys(aObj);
      const bKeys = Object.keys(bObj);
      if (aKeys.length !== bKeys.length) return false;
      for (const key of aKeys) {
        if (!bKeys.includes(key)) return false;
        if (!deepEqual(aObj[key], bObj[key])) return false;
      }
      return true;
    }
    return false;
  }
  \<close>
\<close>

function deepEqual :: "jsval \<Rightarrow> jsval \<Rightarrow> bool" where
  "deepEqual a b =
     (if strict_eq a b then True
      else if typeof a \<noteq> typeof b then False
      else if a = JNull \<or> b = JNull then strict_eq a b
      else if typeof a = TObject \<and> typeof b = TObject then
        (if length (own_keys a) \<noteq> length (own_keys b) then False
         else list_all
                (\<lambda>key. key \<in> set (own_keys b) \<and> deepEqual (get_prop a key) (get_prop b key))
                (own_keys a))
      else False)"
  by pat_completeness auto
termination
proof (relation "measure (\<lambda>(a, b). size a)")
  show "wf (measure (\<lambda>(a, b). size a))" by simp
next
  fix a b :: jsval and key
  assume "\<not> (a = JNull \<or> b = JNull)" and "typeof a = TObject \<and> typeof b = TObject"
    and "key \<in> set (own_keys a)"
  then have "is_object a" by (cases a) simp_all
  then have "size (get_prop a key) < size a"
    using \<open>key \<in> set (own_keys a)\<close> by (rule size_get_prop_lt)
  then show "((get_prop a key, get_prop b key), (a, b)) \<in> measure (\<lambda>(a, b). size a)" by simp
qed

declare deepEqual.simps [simp del]

text \<open>
  A test case as the loader passes it on, and the result of running it. \<open>input\<close> and
  \<open>expect\<close> are records (\<open>Record<string, unknown>\<close>); the fields are prefixed to keep
  \<open>input\<close>, \<open>actual\<close> and \<open>expected\<close> free as variable names.
\<close>

record TestCase =
  test_name :: string
  test_input :: "(string \<times> jsval) list"
  test_expect :: "(string \<times> jsval) list"

text \<open>
  The reason is a template string filled with rule ids and \<open>JSON.stringify\<close> of values;
  it is represented by the template chosen and the values interpolated into it:
  \<^item> \<open>NoRuleMatched\<close>: \<^verbatim>\<open>No rule matched the input. Check your rule conditions.\<close>
  \<^item> \<open>MatchedBefore a e\<close>: \<^verbatim>\<open>Rule 'a' matched before 'e'. Check rule ordering.\<close>
  \<^item> \<open>ExpectedButMatched e a\<close>: \<^verbatim>\<open>Expected rule 'e' to match, but 'a' matched instead.\<close>
  \<^item> \<open>OutputMismatch k e a\<close>: \<^verbatim>\<open>Output mismatch: expected k=e, got a\<close>
  \<^item> \<open>UnknownMismatch\<close>: \<^verbatim>\<open>Unknown mismatch\<close>

  The value \<open>a\<close> is what \<open>JSON.stringify\<close> prints: \<open>undefined\<close> for a function as for
  \<open>undefined\<close>, and \<open>{}\<close> for \<open>Object.prototype\<close> as for an empty object.
\<close>

datatype reason =
    NoRuleMatched
  | MatchedBefore jsval jsval
  | ExpectedButMatched jsval jsval
  | OutputMismatch string jsval jsval
  | UnknownMismatch

record TestResult =
  res_file :: string
  res_name :: string
  res_passed :: bool
  res_input :: "(string \<times> jsval) list"
  res_expected :: "(string \<times> jsval) list"
  res_actual :: EvaluationResult
  res_reason :: "reason option"   \<comment> \<open>\<open>None\<close> is \<open>undefined\<close>\<close>

text \<open>The value of \<open>actual.matched_rule\<close>, of type \<open>string | null\<close>.\<close>

fun matched_rule_val :: "string option \<Rightarrow> jsval" where
  "matched_rule_val None = JNull"
| "matched_rule_val (Some s) = JStr s"

text \<open>
  \<open>xs.indexOf(x)\<close>: the first position of \<open>x\<close>, or \<open>-1\<close>. It is applied to a
  rule that \<open>rules.find\<close> returned for an id, the first rule with that id; an equal rule
  has the same id, so none stands before it and its position is the same by reference
  and by value.
\<close>

fun indexOf :: "'a list \<Rightarrow> 'a \<Rightarrow> int" where
  "indexOf [] x = - 1"
| "indexOf (y # ys) x =
     (if y = x then 0 else (let i = indexOf ys x in if i < 0 then - 1 else i + 1))"

text \<open>
  \<open>deepEqual(expectedValue, actual.output[key])\<close> on what the read gave. An inherited
  method is a function: it is \<open>===\<close> to no expected value and its \<open>typeof\<close> is
  \<open>'function'\<close>, which no expected value has, so the result is \<open>false\<close>. \<open>printed\<close> is
  the value that the reason shows for the read.
\<close>

definition deepEqualRead :: "jsval \<Rightarrow> jsread \<Rightarrow> bool" where
  "deepEqualRead a r = (case r of Value b \<Rightarrow> deepEqual a b | Method m \<Rightarrow> False)"

definition printed :: "jsread \<Rightarrow> jsval" where
  "printed r = (case r of Value b \<Rightarrow> b | Method m \<Rightarrow> JUndefined)"

text \<open>
  The \<open>expectedOutput\<close> of \<open>generateReason\<close>, \<open>{ ...expected }\<close> after
  \<open>delete expectedOutput.matched_rule\<close>: the entries of \<open>expect\<close> other than
  \<open>matched_rule\<close>, in order. The spread defines each entry as an own property.
\<close>

definition expectedOutput :: "(string \<times> jsval) list \<Rightarrow> (string \<times> jsval) list" where
  "expectedOutput expected = filter (\<lambda>kv. fst kv \<noteq> ''matched_rule'') expected"

text \<open>
  The \<open>expectedOutput\<close> of \<open>runTest\<close>, filled by the assignments
  \<open>expectedOutput[key] = value\<close>. An assignment to the key \<open>__proto__\<close> runs the setter
  of \<open>Object.prototype\<close>, which changes the prototype of the object at most and adds no
  property, so \<open>Object.entries(expectedOutput)\<close> holds the entries of \<open>expect\<close> other
  than \<open>matched_rule\<close> and \<open>__proto__\<close>, in order.
\<close>

definition comparedOutput :: "(string \<times> jsval) list \<Rightarrow> (string \<times> jsval) list" where
  "comparedOutput expected =
     filter (\<lambda>kv. fst kv \<noteq> ''matched_rule'' \<and> fst kv \<noteq> ''__proto__'') expected"

text \<open>
  \<^verbatim>\<open>
  function generateReason(expected, actual: EvaluationResult, rules: Rule[]): string {
    if (expected.matched_rule !== undefined &&
        expected.matched_rule !== actual.matched_rule) {
      if (actual.matched_rule === null) return 'No rule matched the input. ...';
      const expectedRule = rules.find((r) => r.id === expected.matched_rule);
      const actualRule = rules.find((r) => r.id === actual.matched_rule);
      if (expectedRule && actualRule) {
        const expectedIndex = rules.indexOf(expectedRule);
        const actualIndex = rules.indexOf(actualRule);
        if (actualIndex < expectedIndex) return `Rule '...' matched before '...'. ...`;
      }
      return `Expected rule '...' to match, but '...' matched instead.`;
    }
    const expectedOutput = { ...expected };
    delete expectedOutput.matched_rule;
    for (const [key, expectedValue] of Object.entries(expectedOutput)) {
      const actualValue = actual.output[key];
      if (!deepEqual(expectedValue, actualValue)) return `Output mismatch: ...`;
    }
    return 'Unknown mismatch';
  }
  \<close>
\<close>

definition generateReason ::
    "(string \<times> jsval) list \<Rightarrow> EvaluationResult \<Rightarrow> rule list \<Rightarrow> reason" where
  "generateReason expected actual rules =
     (let em = lookup expected ''matched_rule'';
          am = matched_rule_val (matched_rule actual)
      in
        if em \<noteq> JUndefined \<and> \<not> strict_eq em am then
          (if am = JNull then NoRuleMatched
           else
             (case (List.find (\<lambda>r. strict_eq (JStr (rule_id r)) em) rules,
                    List.find (\<lambda>r. strict_eq (JStr (rule_id r)) am) rules) of
                (Some expectedRule, Some actualRule) \<Rightarrow>
                  if indexOf rules actualRule < indexOf rules expectedRule
                  then MatchedBefore am em
                  else ExpectedButMatched em am
              | _ \<Rightarrow> ExpectedButMatched em am))
        else
          (case List.find (\<lambda>kv. \<not> deepEqualRead (snd kv) (read (outputs actual) (fst kv)))
                  (expectedOutput expected) of
             Some kv \<Rightarrow>
               OutputMismatch (fst kv) (snd kv) (printed (read (outputs actual) (fst kv)))
           | None \<Rightarrow> UnknownMismatch))"

text \<open>
  \<^verbatim>\<open>
  export function runTest(test: TestCase, rules: Rule[], file: string): TestResult {
    const ruleType = test.input.rule_type as string | undefined;
    const actual = ruleType
      ? evaluateByType(rules, ruleType, test.input)
      : evaluate(rules, test.input);
    const expectedOutput: Record<string, unknown> = {};
    for (const [key, value] of Object.entries(test.expect)) {
      if (key !== 'matched_rule') expectedOutput[key] = value;
    }
    const expectedMatchedRule = test.expect.matched_rule;
    const matchedRuleCorrect =
      expectedMatchedRule === undefined || expectedMatchedRule === actual.matched_rule;
    let outputCorrect = true;
    for (const [key, expectedValue] of Object.entries(expectedOutput)) {
      if (!deepEqual(expectedValue, actual.output[key])) { outputCorrect = false; break; }
    }
    const passed = matchedRuleCorrect && outputCorrect;
    return { file, name: test.name, passed, input: test.input, expected: test.expect,
             actual, reason: passed ? undefined : generateReason(test.expect, actual, rules) };
  }
  \<close>
  The evaluation is split off as \<open>runEvaluation\<close>, tagged with the function it called.
\<close>

datatype evaluator = ByType jsval | Plain

definition chosenEvaluator :: "TestCase \<Rightarrow> evaluator" where
  "chosenEvaluator test =
     (let ruleType = lookup (test_input test) ''rule_type''
      in if truthy ruleType then ByType ruleType else Plain)"

definition runEvaluation ::
    "runtime \<Rightarrow> TestCase \<Rightarrow> rule list \<Rightarrow> js_error + EvaluationResult" where
  "runEvaluation rt test rules =
     (case chosenEvaluator test of
        ByType ruleType \<Rightarrow> evaluateByType rt rules ruleType (test_input test)
      | Plain \<Rightarrow> evaluate rt rules (test_input test))"

definition matchedRuleCorrect :: "TestCase \<Rightarrow> EvaluationResult \<Rightarrow> bool" where
  "matchedRuleCorrect test actual =
     (let expectedMatchedRule = lookup (test_expect test) ''matched_rule''
      in expectedMatchedRule = JUndefined
         \<or> strict_eq expectedMatchedRule (matched_rule_val (matched_rule actual)))"

definition outputCorrect :: "TestCase \<Rightarrow> EvaluationResult \<Rightarrow> bool" where
  "outputCorrect test actual =
     list_all (\<lambda>kv. deepEqualRead (snd kv) (read (outputs actual) (fst kv)))
       (comparedOutput (test_expect test))"

definition runTest ::
    "runtime \<Rightarrow> TestCase \<Rightarrow> rule list \<Rightarrow> string \<Rightarrow> js_error + TestResult" where
  "runTest rt test rules file =
     (case runEvaluation rt test rules of
        Inl e \<Rightarrow> Inl e
      | Inr actual \<Rightarrow>
          (let passed = matchedRuleCorrect test actual \<and> outputCorrect test actual
           in Inr \<lparr>res_file = file, res_name = test_name test, res_passed = passed,
                   res_input = test_input test, res_expected = test_expect test,
                   res_actual = actual,
                   res_reason = (if passed then None
                                 else Some (generateReason (test_expect test) actual rules))\<rparr>))"

section \<open>Example data\<close>

text \<open>
  A runtime for the closed examples. It reads a string of one to fifteen decimal digits
  as that integer, as JavaScript does, and every other string as \<open>NaN\<close>, where
  JavaScript also accepts signs, fractions, exponents and surrounding blanks. The
  theorems below hold for every runtime.
\<close>

definition digits_runtime :: runtime where
  "digits_runtime s =
     (if s \<noteq> [] \<and> length s \<le> 15 \<and> list_all (\<lambda>c. c \<in> set ''0123456789'') s
      then Fin (of_nat (foldl (\<lambda>n c. 10 * n + (of_char c - 48)) (0::nat) s))
      else NaN)"


text \<open>The two rules of the end-to-end example: a VIP discount and a catch-all.\<close>

definition rule_r1 :: rule where
  "rule_r1 = \<lparr>rule_id = ''r1'', rule_when = JObj [(''tier'', JStr ''vip'')],
               rule_then = JObj [(''pct'', JNum (Fin 30))]\<rparr>"

definition rule_r2 :: rule where
  "rule_r2 = \<lparr>rule_id = ''r2'', rule_when = JObj [],
               rule_then = JObj [(''pct'', JNum (Fin 0))]\<rparr>"

text \<open>The closed range \<open>{gte: 10, lte: 100}\<close>, and the condition \<open>{q: {gte: 10, lte: 100}}\<close>.\<close>

definition range_operator :: jsval where
  "range_operator = JObj [(''gte'', JNum (Fin 10)), (''lte'', JNum (Fin 100))]"

definition range_condition :: jsval where
  "range_condition = JObj [(''q'', range_operator)]"

text \<open>The membership condition \<open>{status: {in: ["active", 1, true]}}\<close>.\<close>

definition status_condition :: jsval where
  "status_condition =
     JObj [(''status'', JObj [(''in'', JArr [JStr ''active'', JNum (Fin 1), JBool True])])]"

text \<open>
  Rules scoped by \<open>rule_type\<close>: a pricing rule, a shipping rule, and a rule whose
  discriminator is the empty string.
\<close>

definition rule_pricing :: rule where
  "rule_pricing =
     \<lparr>rule_id = ''p1'',
      rule_when = JObj [(''rule_type'', JStr ''pricing''), (''tier'', JStr ''vip'')],
      rule_then = JObj [(''pct'', JNum (Fin 30))]\<rparr>"

definition rule_shipping :: rule where
  "rule_shipping =
     \<lparr>rule_id = ''s1'', rule_when = JObj [(''rule_type'', JStr ''shipping'')],
      rule_then = JObj [(''cost'', JNum (Fin 5))]\<rparr>"




text \<open>
  A rule whose output holds the object \<open>{"0": "a", "1": 1}\<close>, and a test that expects the
  array \<open>["a", 1]\<close> there.
\<close>

definition rule_tags :: rule where
  "rule_tags =
     \<lparr>rule_id = ''t1'', rule_when = JObj [],
      rule_then = JObj [(''tags'', JObj [(''0'', JStr ''a''), (''1'', JNum (Fin 1))])]\<rparr>"

definition test_tags :: TestCase where
  "test_tags =
     \<lparr>test_name = ''tags'', test_input = [],
      test_expect = [(''tags'', JArr [JStr ''a'', JNum (Fin 1)])]\<rparr>"







section \<open>Sequencing lemmas\<close>

lemma and_then_simps [simp]:
  "and_then (Inl e) k = Inl e"
  "and_then (Inr True) k = k"
  "and_then (Inr False) k = Inr False"
  by (simp_all add: and_then_def)

lemma and_then_True_right [simp]: "and_then r (Inr True) = r"
  by (cases r) (auto simp: and_then_def)

lemma and_then_assoc: "and_then (and_then a b) c = and_then a (and_then b c)"
  by (cases a) (auto simp: and_then_def)

section \<open>First match wins\<close>

lemma matchConditions_empty: "matchConditions rt (JObj []) input = Inr True"
  by (subst matchConditions.simps) (simp add: own_keys_def)

lemma evaluate_skip:
  "\<forall>p\<in>set pre. matchConditions rt (rule_when p) input = Inr False \<Longrightarrow>
   evaluate rt (pre @ rest) input = evaluate rt rest input"
  by (induction pre) simp_all

text \<open>
  Claim C1. \<open>evaluate\<close> returns the id and a copy of the output of the first rule, in list
  order, whose condition matches, whatever rules follow it (they are not evaluated: the
  result is the same even when a later condition would throw); when every rule's
  condition fails to match it returns \<open>{ matched_rule: null, output: {} }\<close>. The copy
  of an output mapping \<open>JObj kvs\<close> is \<open>kvs\<close>.
\<close>

theorem evaluate_first_match:
  "((\<forall>p\<in>set pre. matchConditions rt (rule_when p) input = Inr False)
      \<and> matchConditions rt (rule_when r) input = Inr True
      \<longrightarrow> evaluate rt (pre @ r # post) input =
            Inr \<lparr>matched_rule = Some (rule_id r), outputs = own_entries (rule_then r)\<rparr>)
   \<and> ((\<forall>p\<in>set rules. matchConditions rt (rule_when p) input = Inr False)
      \<longrightarrow> evaluate rt rules input = Inr \<lparr>matched_rule = None, outputs = []\<rparr>)
   \<and> own_entries (JObj kvs) = kvs"
proof (intro conjI impI)
  assume "(\<forall>p\<in>set pre. matchConditions rt (rule_when p) input = Inr False)
      \<and> matchConditions rt (rule_when r) input = Inr True"
  then show "evaluate rt (pre @ r # post) input =
      Inr \<lparr>matched_rule = Some (rule_id r), outputs = own_entries (rule_then r)\<rparr>"
    by (simp add: evaluate_skip)
next
  assume "\<forall>p\<in>set rules. matchConditions rt (rule_when p) input = Inr False"
  then have "evaluate rt (rules @ []) input = evaluate rt [] input" by (rule evaluate_skip)
  then show "evaluate rt rules input = Inr \<lparr>matched_rule = None, outputs = []\<rparr>" by simp
qed simp

theorem evaluate_first_match_witness:
  "matchConditions digits_runtime (rule_when rule_r1) [(''tier'', JStr ''standard'')] = Inr False
   \<and> matchConditions digits_runtime (rule_when rule_r2) [(''tier'', JStr ''standard'')] = Inr True
   \<and> evaluate digits_runtime [rule_r1, rule_r2, \<lparr>rule_id = ''r3'', rule_when = JNull, rule_then = JNull\<rparr>]
        [(''tier'', JStr ''standard'')] =
      Inr \<lparr>matched_rule = Some ''r2'', outputs = [(''pct'', JNum (Fin 0))]\<rparr>
   \<and> evaluate digits_runtime [rule_r1] [(''tier'', JStr ''standard'')] =
      Inr \<lparr>matched_rule = None, outputs = []\<rparr>"
proof -
  let ?input = "[(''tier'', JStr ''standard'')]"
  let ?r3 = "\<lparr>rule_id = ''r3'', rule_when = JNull, rule_then = JNull\<rparr>"
  have miss: "matchConditions digits_runtime (rule_when rule_r1) ?input = Inr False" by code_simp
  have hit: "matchConditions digits_runtime (rule_when rule_r2) ?input = Inr True" by code_simp
  have pre: "\<forall>p\<in>set [rule_r1]. matchConditions digits_runtime (rule_when p) ?input = Inr False"
    using miss by simp
  have fields: "rule_id rule_r2 = ''r2''"
    "own_entries (rule_then rule_r2) = [(''pct'', JNum (Fin 0))]"
    by (simp_all add: rule_r2_def)
  from evaluate_first_match [of "[rule_r1]" digits_runtime ?input rule_r2 "[?r3]" "[rule_r1]" "[]"]
  show ?thesis using miss hit pre fields by simp
qed

text \<open>
  Claim C7. A condition tree with no keys matches every input. Hence a rule with an empty
  condition at the end of the list fires for every input that no earlier rule matches,
  and when an earlier rule matches, that rule's result is returned, not the catch-all's.
\<close>

theorem catch_all_last:
  "matchConditions rt (JObj []) input = Inr True
   \<and> (rule_when c = JObj []
        \<and> (\<forall>p\<in>set pre. matchConditions rt (rule_when p) input = Inr False)
      \<longrightarrow> evaluate rt (pre @ [c]) input =
            Inr \<lparr>matched_rule = Some (rule_id c), outputs = own_entries (rule_then c)\<rparr>)
   \<and> (rule_when c = JObj []
        \<and> (\<forall>p\<in>set pre. matchConditions rt (rule_when p) input = Inr False)
        \<and> matchConditions rt (rule_when r) input = Inr True
      \<longrightarrow> evaluate rt (pre @ r # mid @ [c]) input =
            Inr \<lparr>matched_rule = Some (rule_id r), outputs = own_entries (rule_then r)\<rparr>)"
  by (simp add: matchConditions_empty evaluate_skip)

theorem catch_all_last_witness:
  "rule_when rule_r2 = JObj []
   \<and> matchConditions digits_runtime (rule_when rule_r1) [(''tier'', JStr ''standard'')] = Inr False
   \<and> matchConditions digits_runtime (rule_when rule_r1) [(''tier'', JStr ''vip'')] = Inr True
   \<and> evaluate digits_runtime [rule_r1, rule_r2] [(''tier'', JStr ''standard'')] =
      Inr \<lparr>matched_rule = Some ''r2'', outputs = [(''pct'', JNum (Fin 0))]\<rparr>
   \<and> evaluate digits_runtime [rule_r1, rule_r2] [(''tier'', JStr ''vip'')] =
      Inr \<lparr>matched_rule = Some ''r1'', outputs = [(''pct'', JNum (Fin 30))]\<rparr>"
proof -
  have empty: "rule_when rule_r2 = JObj []" by (simp add: rule_r2_def)
  have miss: "matchConditions digits_runtime (rule_when rule_r1) [(''tier'', JStr ''standard'')] = Inr False"
    by code_simp
  have hit: "matchConditions digits_runtime (rule_when rule_r1) [(''tier'', JStr ''vip'')] = Inr True"
    by code_simp
  have fields: "rule_id rule_r2 = ''r2''" "rule_id rule_r1 = ''r1''"
    "own_entries (rule_then rule_r2) = [(''pct'', JNum (Fin 0))]"
    "own_entries (rule_then rule_r1) = [(''pct'', JNum (Fin 30))]"
    by (simp_all add: rule_r1_def rule_r2_def)
  from catch_all_last [of digits_runtime "[(''tier'', JStr ''standard'')]" rule_r2 "[rule_r1]" rule_r1 "[]"]
  have a: "evaluate digits_runtime [rule_r1, rule_r2] [(''tier'', JStr ''standard'')] =
      Inr \<lparr>matched_rule = Some ''r2'', outputs = [(''pct'', JNum (Fin 0))]\<rparr>"
    using empty miss fields by simp
  from catch_all_last [of digits_runtime "[(''tier'', JStr ''vip'')]" rule_r2 "[]" rule_r1 "[]"]
  have b: "evaluate digits_runtime [rule_r1, rule_r2] [(''tier'', JStr ''vip'')] =
      Inr \<lparr>matched_rule = Some ''r1'', outputs = [(''pct'', JNum (Fin 30))]\<rparr>"
    using empty hit fields by simp
  from empty miss hit a b show ?thesis by simp
qed

section \<open>Comparison operators\<close>

lemma num_cmp_Fin [simp]:
  "num_ge (Fin x) (Fin y) = (y \<le> x)"
  "num_le (Fin x) (Fin y) = (x \<le> y)"
  "num_gt (Fin x) (Fin y) = (y < x)"
  by (auto simp: num_ge_def num_le_def num_gt_def num_eq_def)

lemma compareValue_not_number:
  "typeof actual \<noteq> TNumber \<Longrightarrow> compareValue rt actual operator = Inr False"
  by (cases actual) simp_all

lemma bound_ok_typed:
  "b = JUndefined \<or> (\<exists>n. b = JNum n) \<Longrightarrow>
   bound_ok rt cmp a b = Inr (\<forall>n. b = JNum n \<longrightarrow> cmp a n)"
  by (auto simp: bound_ok_def ToNumber_def)

lemma and_then_Inr: "and_then (Inr p) (Inr q) = Inr (p \<and> q)"
  by (cases p) simp_all

lemma compareValue_typed:
  assumes "\<forall>k\<in>{''gte'', ''lte'', ''gt'', ''lt''}.
             get_prop operator k = JUndefined \<or> (\<exists>n. get_prop operator k = JNum n)"
  shows "compareValue rt (JNum a) operator =
           Inr ((\<forall>n. get_prop operator ''gte'' = JNum n \<longrightarrow> num_ge a n)
              \<and> (\<forall>n. get_prop operator ''lte'' = JNum n \<longrightarrow> num_le a n)
              \<and> (\<forall>n. get_prop operator ''gt'' = JNum n \<longrightarrow> num_gt a n)
              \<and> (\<forall>n. get_prop operator ''lt'' = JNum n \<longrightarrow> num_lt a n))"
proof -
  from assms have
    "get_prop operator ''gte'' = JUndefined \<or> (\<exists>n. get_prop operator ''gte'' = JNum n)"
    "get_prop operator ''lte'' = JUndefined \<or> (\<exists>n. get_prop operator ''lte'' = JNum n)"
    "get_prop operator ''gt'' = JUndefined \<or> (\<exists>n. get_prop operator ''gt'' = JNum n)"
    "get_prop operator ''lt'' = JUndefined \<or> (\<exists>n. get_prop operator ''lt'' = JNum n)"
    by simp_all
  then show ?thesis
    by (simp only: compareValue.simps bound_ok_typed and_then_Inr simp_thms)
qed

lemma matchCondition_comparison:
  "isComparisonOperator c \<Longrightarrow> matchCondition rt c actual = compareValue rt actual c"
  by (simp add: matchCondition_def)

text \<open>
  Claim C3. A constraint that is a comparison operator is decided by \<open>compareValue\<close>. It
  fails whenever the actual value is not a number (a numeric string, \<open>null\<close>, or the
  \<open>undefined\<close> of a missing field). When the actual value is a number and each of the four
  bounds is absent or a number, it holds iff every bound that is present holds. On finite
  numbers the four comparisons are those of the rationals. With \<open>{gte: 10, lte: 100}\<close>
  the value 10 matches, 9 and 101 do not.
\<close>

theorem comparison_constraint:
  "(isComparisonOperator c \<longrightarrow> matchCondition rt c actual = compareValue rt actual c)
   \<and> (typeof actual \<noteq> TNumber \<longrightarrow> compareValue rt actual c = Inr False)
   \<and> ((\<forall>k\<in>{''gte'', ''lte'', ''gt'', ''lt''}.
          get_prop c k = JUndefined \<or> (\<exists>n. get_prop c k = JNum n))
      \<longrightarrow> compareValue rt (JNum a) c =
            Inr ((\<forall>n. get_prop c ''gte'' = JNum n \<longrightarrow> num_ge a n)
               \<and> (\<forall>n. get_prop c ''lte'' = JNum n \<longrightarrow> num_le a n)
               \<and> (\<forall>n. get_prop c ''gt'' = JNum n \<longrightarrow> num_gt a n)
               \<and> (\<forall>n. get_prop c ''lt'' = JNum n \<longrightarrow> num_lt a n)))
   \<and> num_ge (Fin x) (Fin y) = (y \<le> x) \<and> num_le (Fin x) (Fin y) = (x \<le> y)
   \<and> num_gt (Fin x) (Fin y) = (y < x) \<and> num_lt (Fin x) (Fin y) = (x < y)
   \<and> matchConditions rt range_condition [(''q'', JNum (Fin 10))] = Inr True
   \<and> matchConditions rt range_condition [(''q'', JNum (Fin 9))] = Inr False
   \<and> matchConditions rt range_condition [(''q'', JNum (Fin 101))] = Inr False
   \<and> matchConditions rt range_condition [(''q'', JStr ''10'')] = Inr False
   \<and> matchConditions rt range_condition [(''q'', JNull)] = Inr False
   \<and> matchConditions rt range_condition [] = Inr False"
proof -
  have ex: "matchConditions rt range_condition [(''q'', JNum (Fin 10))] = Inr True"
    "matchConditions rt range_condition [(''q'', JNum (Fin 9))] = Inr False"
    "matchConditions rt range_condition [(''q'', JNum (Fin 101))] = Inr False"
    "matchConditions rt range_condition [(''q'', JStr ''10'')] = Inr False"
    "matchConditions rt range_condition [(''q'', JNull)] = Inr False"
    "matchConditions rt range_condition [] = Inr False"
    by code_simp+
  show ?thesis
    using matchCondition_comparison [of c rt actual] compareValue_not_number [of actual rt c]
      compareValue_typed [of c rt a] ex
    by simp
qed

theorem comparison_constraint_witness:
  "isComparisonOperator range_operator
   \<and> typeof (JStr ''100'') \<noteq> TNumber
   \<and> get_prop range_operator ''gte'' = JNum (Fin 10)
   \<and> get_prop range_operator ''lte'' = JNum (Fin 100)
   \<and> get_prop range_operator ''gt'' = JUndefined
   \<and> get_prop range_operator ''lt'' = JUndefined
   \<and> matchCondition digits_runtime range_operator (JStr ''100'') = Inr False
   \<and> compareValue digits_runtime (JNum (Fin 10)) range_operator = Inr True
   \<and> compareValue digits_runtime (JNum (Fin (201 / 2))) range_operator = Inr False"
proof -
  have props: "get_prop range_operator ''gte'' = JNum (Fin 10)"
    "get_prop range_operator ''lte'' = JNum (Fin 100)"
    "get_prop range_operator ''gt'' = JUndefined"
    "get_prop range_operator ''lt'' = JUndefined"
    by (simp_all add: range_operator_def get_prop_def lookup_def)
  have op: "isComparisonOperator range_operator"
    by (simp add: range_operator_def isComparisonOperator_def own_keys_def)
  have typed: "\<forall>k\<in>{''gte'', ''lte'', ''gt'', ''lt''}.
         get_prop range_operator k = JUndefined \<or> (\<exists>n. get_prop range_operator k = JNum n)"
    using props by simp
  from comparison_constraint [of range_operator digits_runtime "JStr ''100''" "Fin 10"]
  have a: "matchCondition digits_runtime range_operator (JStr ''100'') = Inr False"
    and b: "compareValue digits_runtime (JNum (Fin 10)) range_operator = Inr True"
    using op typed props by simp_all
  from comparison_constraint [of range_operator digits_runtime "JStr ''100''" "Fin (201 / 2)"]
  have c: "compareValue digits_runtime (JNum (Fin (201 / 2))) range_operator = Inr False"
    using typed props by simp
  from op props a b c show ?thesis by simp
qed

section \<open>Exact match and set membership\<close>

lemma matchCondition_scalar:
  "\<not> is_object c \<Longrightarrow> matchCondition rt c actual = Inr (strict_eq actual c)"
  by (cases c) (simp_all add: matchCondition_def isComparisonOperator_def isInOperator_def)

lemma matchCondition_in:
  "\<not> isComparisonOperator c \<Longrightarrow> isInOperator c \<Longrightarrow>
   matchCondition rt c actual =
     Inr (\<exists>e\<in>set (elements (get_prop c ''in'')). same_value_zero e actual)"
  by (simp add: matchCondition_def checkInOperator_def list_ex_iff)

lemma same_value_zero_iff:
  "same_value_zero e actual = (strict_eq e actual \<or> (e = JNum NaN \<and> actual = JNum NaN))"
  by (cases e; cases actual) (auto simp: num_eq_def)

lemma strict_eq_typeof: "strict_eq a b \<Longrightarrow> typeof a = typeof b"
  by (cases a; cases b) simp_all

text \<open>
  Claim C2, as stated, says that an \<open>in\<close> constraint compares with strict equality. It
  does not for \<open>NaN\<close>: \<open>[NaN].includes(NaN)\<close> is true while \<open>NaN === NaN\<close> is false, so
  the constraint \<open>{in: [.nan]}\<close> matches the value \<open>.nan\<close>.
\<close>

theorem in_constraint_strict_counterexample:
  "matchCondition digits_runtime (JObj [(''in'', JArr [JNum NaN])]) (JNum NaN) = Inr True
   \<and> \<not> strict_eq (JNum NaN) (JNum NaN)"
  by (simp add: matchCondition_def isComparisonOperator_def isInOperator_def own_keys_def
      get_prop_def lookup_def checkInOperator_def num_eq_def)

text \<open>
  Claim C2, amended. A scalar constraint matches iff the actual value is strictly equal
  to it. An \<open>in\<close> constraint matches iff some element of the list is the same as the
  actual value under the comparison of \<open>includes\<close>, which is strict equality except that
  \<open>NaN\<close> matches \<open>NaN\<close>. Neither coerces: values that compare equal have the same type.
  So a number constraint never matches a string, a \<open>null\<close> constraint matches exactly the
  value \<open>null\<close> and not the \<open>undefined\<close> of a missing key, and
  \<open>{status: {in: ["active", 1, true]}}\<close> matches \<open>true\<close> but not \<open>"true"\<close>.
\<close>

theorem exact_and_in_constraints:
  "(\<not> is_object c \<longrightarrow> matchCondition rt c actual = Inr (strict_eq actual c))
   \<and> (\<not> isComparisonOperator c \<and> isInOperator c
      \<longrightarrow> matchCondition rt c actual =
            Inr (\<exists>e\<in>set (elements (get_prop c ''in'')). same_value_zero e actual))
   \<and> same_value_zero e actual = (strict_eq e actual \<or> (e = JNum NaN \<and> actual = JNum NaN))
   \<and> (strict_eq e actual \<longrightarrow> typeof e = typeof actual)
   \<and> matchCondition rt (JNum n) (JStr s) = Inr False
   \<and> matchCondition rt JNull actual = Inr (actual = JNull)
   \<and> matchConditions rt (JObj [(''field'', JNum (Fin 100))]) [(''field'', JStr ''100'')] = Inr False
   \<and> matchConditions rt (JObj [(''field'', JNull)]) [(''field'', JNull)] = Inr True
   \<and> matchConditions rt (JObj [(''field'', JNull)]) [] = Inr False
   \<and> matchConditions rt status_condition [(''status'', JBool True)] = Inr True
   \<and> matchConditions rt status_condition [(''status'', JStr ''true'')] = Inr False"
proof -
  have num_str: "matchCondition rt (JNum n) (JStr s) = Inr False"
    by (simp add: matchCondition_scalar)
  have null: "matchCondition rt JNull actual = Inr (actual = JNull)"
    by (cases actual) (simp_all add: matchCondition_scalar)
  have ex: "matchConditions rt (JObj [(''field'', JNum (Fin 100))]) [(''field'', JStr ''100'')]
      = Inr False"
    "matchConditions rt (JObj [(''field'', JNull)]) [(''field'', JNull)] = Inr True"
    "matchConditions rt (JObj [(''field'', JNull)]) [] = Inr False"
    "matchConditions rt status_condition [(''status'', JBool True)] = Inr True"
    "matchConditions rt status_condition [(''status'', JStr ''true'')] = Inr False"
    by code_simp+
  show ?thesis
    using matchCondition_scalar [of c rt actual] matchCondition_in [of c rt actual]
      same_value_zero_iff [of e actual] strict_eq_typeof [of e actual] num_str null ex
    by simp
qed

theorem exact_and_in_constraints_witness:
  "\<not> is_object (JStr ''vip'')
   \<and> \<not> isComparisonOperator (JObj [(''in'', JArr [JStr ''us'', JNull])])
   \<and> isInOperator (JObj [(''in'', JArr [JStr ''us'', JNull])])
   \<and> strict_eq (JStr ''vip'') (JStr ''vip'')
   \<and> matchCondition digits_runtime (JStr ''vip'') (JStr ''vip'') = Inr True
   \<and> matchCondition digits_runtime (JObj [(''in'', JArr [JStr ''us'', JNull])]) JNull = Inr True
   \<and> matchCondition digits_runtime (JObj [(''in'', JArr [JStr ''us'', JNull])]) JUndefined = Inr False
   \<and> typeof (JStr ''vip'') = typeof (JStr ''vip'')"
proof -
  let ?c = "JObj [(''in'', JArr [JStr ''us'', JNull])]"
  have shape: "\<not> isComparisonOperator ?c" "isInOperator ?c"
    "elements (get_prop ?c ''in'') = [JStr ''us'', JNull]"
    by (simp_all add: isComparisonOperator_def isInOperator_def own_keys_def get_prop_def
        lookup_def)
  from exact_and_in_constraints [of "JStr ''vip''" digits_runtime "JStr ''vip''" "JStr ''vip''"]
  have a: "matchCondition digits_runtime (JStr ''vip'') (JStr ''vip'') = Inr True"
    and t: "typeof (JStr ''vip'') = typeof (JStr ''vip'')"
    by simp_all
  from exact_and_in_constraints [of ?c digits_runtime JNull]
  have b: "matchCondition digits_runtime ?c JNull = Inr True" using shape by simp
  from exact_and_in_constraints [of ?c digits_runtime JUndefined]
  have c: "matchCondition digits_runtime ?c JUndefined = Inr False" using shape by simp
  from shape a b c show ?thesis by simp
qed

section \<open>Evaluation scoped by rule type\<close>

lemma strict_eq_JStr: "strict_eq x (JStr d) = (x = JStr d)"
  by (cases x) simp_all

lemma filterByType_total:
  "\<forall>r\<in>set rules. rule_when r \<noteq> JUndefined \<and> rule_when r \<noteq> JNull \<Longrightarrow>
   filterByType rules v =
     Inr (filter (\<lambda>r. strict_eq (get_prop (rule_when r) ''rule_type'') v) rules)"
  by (induction rules) simp_all

lemma get_prop_absent: "k \<notin> set (own_keys v) \<Longrightarrow> get_prop v k = JUndefined"
  by (simp add: get_prop_def lookup_def own_keys_def map_of_eq_None_iff [THEN iffD2])

text \<open>
  Claim C6. For rules whose condition is not \<open>null\<close> (reading a property of \<open>null\<close>
  throws), \<open>evaluateByType\<close> with the discriminator string \<open>d\<close> is \<open>evaluate\<close> on the rules
  whose condition has the top-level entry \<open>rule_type: d\<close>, kept in their order; a rule
  with no top-level \<open>rule_type\<close> key is not among them.
\<close>

theorem evaluateByType_filtered:
  "(\<forall>r\<in>set rules. rule_when r \<noteq> JUndefined \<and> rule_when r \<noteq> JNull) \<longrightarrow>
     evaluateByType rt rules (JStr d) input =
       evaluate rt (filter (\<lambda>r. get_prop (rule_when r) ''rule_type'' = JStr d) rules) input
     \<and> subseq (filter (\<lambda>r. get_prop (rule_when r) ''rule_type'' = JStr d) rules) rules
     \<and> (\<forall>r\<in>set rules. ''rule_type'' \<notin> set (own_keys (rule_when r)) \<longrightarrow>
           r \<notin> set (filter (\<lambda>r. get_prop (rule_when r) ''rule_type'' = JStr d) rules))"
  by (simp add: evaluateByType_def filterByType_total strict_eq_JStr get_prop_absent
      subseq_filter_left)

theorem evaluateByType_filtered_witness:
  "is_object (rule_when rule_shipping) \<and> is_object (rule_when rule_r2)
   \<and> is_object (rule_when rule_pricing)
   \<and> filter (\<lambda>r. get_prop (rule_when r) ''rule_type'' = JStr ''pricing'')
        [rule_shipping, rule_r2, rule_pricing] = [rule_pricing]
   \<and> evaluateByType digits_runtime [rule_shipping, rule_r2, rule_pricing] (JStr ''pricing'')
        [(''rule_type'', JStr ''pricing''), (''tier'', JStr ''vip'')] =
      Inr \<lparr>matched_rule = Some ''p1'', outputs = [(''pct'', JNum (Fin 30))]\<rparr>"
proof -
  let ?rules = "[rule_shipping, rule_r2, rule_pricing]"
  let ?input = "[(''rule_type'', JStr ''pricing''), (''tier'', JStr ''vip'')]"
  have wf: "\<forall>r\<in>set ?rules. rule_when r \<noteq> JUndefined \<and> rule_when r \<noteq> JNull"
    by (simp add: rule_shipping_def rule_r2_def rule_pricing_def)
  have flt: "filter (\<lambda>r. get_prop (rule_when r) ''rule_type'' = JStr ''pricing'') ?rules
      = [rule_pricing]"
    by (simp add: rule_shipping_def rule_r2_def rule_pricing_def get_prop_def lookup_def)
  have ev: "evaluate digits_runtime [rule_pricing] ?input =
      Inr \<lparr>matched_rule = Some ''p1'', outputs = [(''pct'', JNum (Fin 30))]\<rparr>"
    by code_simp
  from evaluateByType_filtered [of ?rules digits_runtime "''pricing''" ?input]
  have "evaluateByType digits_runtime ?rules (JStr ''pricing'') ?input =
      Inr \<lparr>matched_rule = Some ''p1'', outputs = [(''pct'', JNum (Fin 30))]\<rparr>"
    using wf flt ev by simp
  moreover have "is_object (rule_when rule_shipping)" "is_object (rule_when rule_r2)"
    "is_object (rule_when rule_pricing)"
    by (simp_all add: rule_shipping_def rule_r2_def rule_pricing_def)
  ultimately show ?thesis using flt by simp
qed

section \<open>Which evaluator the runner calls\<close>







section \<open>Deep equality of arrays and objects\<close>

lemma deepEqual_objects:
  assumes "is_object a" and "is_object b"
  shows "deepEqual a b =
           (length (own_keys a) = length (own_keys b)
            \<and> (\<forall>k\<in>set (own_keys a).
                  k \<in> set (own_keys b) \<and> deepEqual (get_prop a k) (get_prop b k)))"
proof -
  from assms have "\<not> strict_eq a b" "typeof a = TObject" "typeof b = TObject"
    "a \<noteq> JNull" "b \<noteq> JNull"
    by (cases a; cases b; simp)+
  then show ?thesis
    by (subst deepEqual.simps) (simp add: list_all_iff)
qed

lemma indexed_pair: "indexed [x, y] = [(''0'', x), (''1'', y)]"
proof -
  have "string_of_nat 0 = ''0''" "string_of_nat 1 = ''1''" by code_simp+
  moreover have "[0..<2] = [0, 1::nat]" by code_simp
  ultimately show ?thesis by (simp add: indexed_def)
qed

text \<open>
  Claim C10. \<open>deepEqual\<close> compares two values that are arrays or objects by their keys
  alone: the same number of keys, every key of the first a key of the second, and equal
  values under each key. An array \<open>[v0, v1]\<close> has the keys \<open>"0"\<close> and \<open>"1"\<close>, so it is
  deep-equal to the object \<open>{"0": v0, "1": v1}\<close> whenever \<open>v0\<close> and \<open>v1\<close> are deep-equal
  to themselves. A test that expects the array \<open>["a", 1]\<close> passes against a rule whose
  output holds the object \<open>{"0": "a", "1": 1}\<close>.
\<close>

theorem deepEqual_array_object:
  "(is_object a \<and> is_object b \<longrightarrow>
      deepEqual a b =
        (length (own_keys a) = length (own_keys b)
         \<and> (\<forall>k\<in>set (own_keys a).
               k \<in> set (own_keys b) \<and> deepEqual (get_prop a k) (get_prop b k))))
   \<and> (deepEqual v0 v0 \<and> deepEqual v1 v1 \<longrightarrow>
        deepEqual (JArr [v0, v1]) (JObj [(''0'', v0), (''1'', v1)]))
   \<and> deepEqual (JArr [JStr ''a'', JNum (Fin 1)]) (JObj [(''0'', JStr ''a''), (''1'', JNum (Fin 1))])
   \<and> (\<exists>res. runTest rt test_tags [rule_tags] file = Inr res
          \<and> res_passed res \<and> res_reason res = None
          \<and> lookup (res_expected res) ''tags'' = JArr [JStr ''a'', JNum (Fin 1)]
          \<and> lookup (outputs (res_actual res)) ''tags'' =
              JObj [(''0'', JStr ''a''), (''1'', JNum (Fin 1))])"
proof -
  have general: "deepEqual (JArr [v0, v1]) (JObj [(''0'', v0), (''1'', v1)])"
    if "deepEqual v0 v0" and "deepEqual v1 v1" for v0 v1
    using that
    by (simp add: deepEqual_objects own_keys_def indexed_pair get_prop_def lookup_def)
  have concrete: "deepEqual (JArr [JStr ''a'', JNum (Fin 1)])
      (JObj [(''0'', JStr ''a''), (''1'', JNum (Fin 1))])"
    by code_simp
  have ev: "runEvaluation rt test_tags [rule_tags] =
      Inr \<lparr>matched_rule = Some ''t1'',
           outputs = [(''tags'', JObj [(''0'', JStr ''a''), (''1'', JNum (Fin 1))])]\<rparr>"
    by code_simp
  let ?act = "\<lparr>matched_rule = Some ''t1'',
           outputs = [(''tags'', JObj [(''0'', JStr ''a''), (''1'', JNum (Fin 1))])]\<rparr>"
  have ok: "matchedRuleCorrect test_tags ?act" "outputCorrect test_tags ?act"
    by code_simp+
  have "runTest rt test_tags [rule_tags] file =
      Inr \<lparr>res_file = file, res_name = test_name test_tags, res_passed = True,
           res_input = test_input test_tags, res_expected = test_expect test_tags,
           res_actual = ?act, res_reason = None\<rparr>"
    by (simp add: runTest_def ev ok)
  then have run: "\<exists>res. runTest rt test_tags [rule_tags] file = Inr res
          \<and> res_passed res \<and> res_reason res = None
          \<and> lookup (res_expected res) ''tags'' = JArr [JStr ''a'', JNum (Fin 1)]
          \<and> lookup (outputs (res_actual res)) ''tags'' =
              JObj [(''0'', JStr ''a''), (''1'', JNum (Fin 1))]"
    by (simp add: test_tags_def lookup_def)
  from deepEqual_objects [of a b] general [of v0 v1] concrete run show ?thesis by blast
qed

theorem deepEqual_array_object_witness:
  "is_object (JArr [JNull]) \<and> is_object (JObj [(''0'', JNull)])
   \<and> deepEqual JNull JNull \<and> deepEqual (JBool True) (JBool True)
   \<and> deepEqual (JArr [JNull]) (JObj [(''0'', JNull)])
   \<and> deepEqual (JArr [JNull, JBool True]) (JObj [(''0'', JNull), (''1'', JBool True)])"
proof -
  have refl: "deepEqual JNull JNull" "deepEqual (JBool True) (JBool True)"
    by (simp_all add: deepEqual.simps)
  have keys: "own_keys (JArr [JNull]) = [''0'']" "own_keys (JObj [(''0'', JNull)]) = [''0'']"
    "get_prop (JArr [JNull]) ''0'' = JNull" "get_prop (JObj [(''0'', JNull)]) ''0'' = JNull"
    by code_simp+
  from deepEqual_array_object [of "JArr [JNull]" "JObj [(''0'', JNull)]" JNull "JBool True"]
  have one: "deepEqual (JArr [JNull]) (JObj [(''0'', JNull)])"
    and two: "deepEqual (JArr [JNull, JBool True]) (JObj [(''0'', JNull), (''1'', JBool True)])"
    using refl keys by simp_all
  from refl one two show ?thesis by simp
qed

section \<open>The boolean keys \<open>all\<close> and \<open>any\<close>\<close>

lemma matchConditions_JObj:
  "matchConditions rt (JObj kvs) input =
     and_then (every_r (matchField rt input) kvs)
    (and_then
       (if ''all'' \<in> fst ` set kvs \<and> isArray (lookup kvs ''all'')
        then every_r (\<lambda>c. matchConditions rt c input) (elements (lookup kvs ''all''))
        else Inr True)
       (if ''any'' \<in> fst ` set kvs \<and> isArray (lookup kvs ''any'')
        then some_r (\<lambda>c. matchConditions rt c input) (elements (lookup kvs ''any''))
        else Inr True))"
  by (subst matchConditions.simps) (simp add: own_keys_def get_prop_def)

lemma lookup_filter_other:
  "k \<noteq> k' \<Longrightarrow> lookup (filter (\<lambda>kv. fst kv \<noteq> k') kvs) k = lookup kvs k"
  by (induction kvs) (auto simp: lookup_def)

lemma keys_filter_other:
  "k \<noteq> k' \<Longrightarrow> (k \<in> fst ` set (filter (\<lambda>kv. fst kv \<noteq> k') kvs)) = (k \<in> fst ` set kvs)"
  by force

lemma keys_filter_same: "k \<notin> fst ` set (filter (\<lambda>kv. fst kv \<noteq> k) kvs)"
  by auto

lemma every_r_matchField_filter:
  "k = ''all'' \<or> k = ''any'' \<Longrightarrow>
   every_r (matchField rt input) (filter (\<lambda>kv. fst kv \<noteq> k) kvs) = every_r (matchField rt input) kvs"
  by (induction kvs) (auto simp: matchField_def split: sum.splits)

lemma lookup_present: "lookup kvs k \<noteq> JUndefined \<Longrightarrow> k \<in> fst ` set kvs"
  by (auto simp: lookup_def split: option.splits dest: map_of_SomeD intro: rev_image_eqI)

lemma some_r_total:
  "\<forall>c\<in>set cs. f c = Inr True \<or> f c = Inr False \<Longrightarrow>
   some_r f cs = Inr (\<exists>c\<in>set cs. f c = Inr True)"
  by (induction cs) auto

lemma any_clause_split:
  assumes "get_prop (JObj kvs) ''any'' = JArr cs"
  shows "matchConditions rt (JObj kvs) input =
           and_then (matchConditions rt (JObj (filter (\<lambda>kv. fst kv \<noteq> ''any'') kvs)) input)
                    (some_r (\<lambda>c. matchConditions rt c input) cs)"
proof -
  from assms have val: "lookup kvs ''any'' = JArr cs" by (simp add: get_prop_def)
  then have "''any'' \<in> fst ` set kvs" by (intro lookup_present) simp
  with val show ?thesis
    unfolding matchConditions_JObj [of _ kvs] matchConditions_JObj [of _ "filter _ kvs"]
    by (simp add: every_r_matchField_filter lookup_filter_other keys_filter_other
        keys_filter_same and_then_assoc del: set_filter)
qed

lemma any_clause_ignored:
  assumes "\<not> isArray (get_prop (JObj kvs) ''any'')"
  shows "matchConditions rt (JObj kvs) input =
           matchConditions rt (JObj (filter (\<lambda>kv. fst kv \<noteq> ''any'') kvs)) input"
  using assms
  unfolding matchConditions_JObj [of _ kvs] matchConditions_JObj [of _ "filter _ kvs"]
  by (simp add: every_r_matchField_filter lookup_filter_other keys_filter_other
      keys_filter_same get_prop_def del: set_filter)

lemma all_clause_ignored:
  assumes "\<not> isArray (get_prop (JObj kvs) ''all'')"
  shows "matchConditions rt (JObj kvs) input =
           matchConditions rt (JObj (filter (\<lambda>kv. fst kv \<noteq> ''all'') kvs)) input"
  using assms
  unfolding matchConditions_JObj [of _ kvs] matchConditions_JObj [of _ "filter _ kvs"]
  by (simp add: every_r_matchField_filter lookup_filter_other keys_filter_other
      keys_filter_same get_prop_def del: set_filter)

text \<open>
  Claim C5, as stated, says that a tree whose \<open>any\<close> sequence is empty matches when its
  other constraints do. It does not: \<open>[].some(f)\<close> is false, so an empty \<open>any\<close> rejects
  every input. The same tree without the \<open>any\<close> key matches.
\<close>

theorem empty_any_counterexample:
  "matchConditions digits_runtime (JObj [(''tier'', JStr ''vip''), (''any'', JArr [])])
     [(''tier'', JStr ''vip'')] = Inr False
   \<and> matchConditions digits_runtime (JObj [(''tier'', JStr ''vip'')]) [(''tier'', JStr ''vip'')] = Inr True"
  by code_simp

text \<open>
  Claim C5, amended. When \<open>any\<close> is mapped to a sequence, the tree is its other
  constraints followed by the \<open>any\<close> clause, and the clause holds iff at least one nested
  tree matches (for nested trees that return a boolean); so the clause makes the tree
  false exactly when no nested tree matches, which includes the empty sequence. An
  \<open>any\<close> or \<open>all\<close> key that is absent or not mapped to a sequence imposes no constraint:
  the tree evaluates as it does without the key.
\<close>

theorem any_clause:
  "(get_prop (JObj kvs) ''any'' = JArr cs \<longrightarrow>
      matchConditions rt (JObj kvs) input =
        and_then (matchConditions rt (JObj (filter (\<lambda>kv. fst kv \<noteq> ''any'') kvs)) input)
                 (some_r (\<lambda>c. matchConditions rt c input) cs))
   \<and> ((\<forall>c\<in>set cs. matchConditions rt c input = Inr True \<or> matchConditions rt c input = Inr False)
      \<longrightarrow> some_r (\<lambda>c. matchConditions rt c input) cs =
            Inr (\<exists>c\<in>set cs. matchConditions rt c input = Inr True))
   \<and> (\<not> isArray (get_prop (JObj kvs) ''any'') \<longrightarrow>
        matchConditions rt (JObj kvs) input =
          matchConditions rt (JObj (filter (\<lambda>kv. fst kv \<noteq> ''any'') kvs)) input)
   \<and> (\<not> isArray (get_prop (JObj kvs) ''all'') \<longrightarrow>
        matchConditions rt (JObj kvs) input =
          matchConditions rt (JObj (filter (\<lambda>kv. fst kv \<noteq> ''all'') kvs)) input)
   \<and> matchConditions rt (JObj [(''any'', JArr [])]) input = Inr False"
proof -
  have "matchConditions rt (JObj [(''any'', JArr [])]) input = Inr False"
    by (simp add: matchConditions_JObj matchField_def lookup_def)
  with any_clause_split [of kvs cs rt input] any_clause_ignored [of kvs rt input]
    all_clause_ignored [of kvs rt input]
    some_r_total [of cs "\<lambda>c. matchConditions rt c input"]
  show ?thesis by blast
qed

theorem any_clause_witness:
  "get_prop (JObj [(''tier'', JStr ''vip''), (''any'', JArr [JObj [(''q'', JNum (Fin 1))], JObj []])])
     ''any'' = JArr [JObj [(''q'', JNum (Fin 1))], JObj []]
   \<and> matchConditions digits_runtime (JObj [(''q'', JNum (Fin 1))]) [(''tier'', JStr ''vip'')] = Inr False
   \<and> matchConditions digits_runtime (JObj []) [(''tier'', JStr ''vip'')] = Inr True
   \<and> \<not> isArray (get_prop (JObj [(''tier'', JStr ''vip''), (''any'', JNum (Fin 5))]) ''any'')
   \<and> \<not> isArray (get_prop (JObj [(''tier'', JStr ''vip''), (''all'', JStr ''x'')]) ''all'')
   \<and> matchConditions digits_runtime
        (JObj [(''tier'', JStr ''vip''), (''any'', JArr [JObj [(''q'', JNum (Fin 1))], JObj []])])
        [(''tier'', JStr ''vip'')] = Inr True
   \<and> matchConditions digits_runtime (JObj [(''tier'', JStr ''vip''), (''any'', JNum (Fin 5))])
        [(''tier'', JStr ''vip'')] = Inr True
   \<and> matchConditions digits_runtime (JObj [(''tier'', JStr ''vip''), (''all'', JStr ''x'')])
        [(''tier'', JStr ''vip'')] = Inr True"
proof -
  let ?input = "[(''tier'', JStr ''vip'')]"
  let ?cs = "[JObj [(''q'', JNum (Fin 1))], JObj []]"
  let ?t = "JObj [(''tier'', JStr ''vip''), (''any'', JArr ?cs)]"
  have g: "get_prop ?t ''any'' = JArr ?cs" by (simp add: get_prop_def lookup_def)
  have n1: "matchConditions digits_runtime (JObj [(''q'', JNum (Fin 1))]) ?input = Inr False"
    and n2: "matchConditions digits_runtime (JObj []) ?input = Inr True"
    and rest: "matchConditions digits_runtime (JObj [(''tier'', JStr ''vip'')]) ?input = Inr True"
    by code_simp+
  have tot: "\<forall>c\<in>set ?cs. matchConditions digits_runtime c ?input = Inr True
      \<or> matchConditions digits_runtime c ?input = Inr False"
    using n1 n2 by simp
  have na: "\<not> isArray (get_prop (JObj [(''tier'', JStr ''vip''), (''any'', JNum (Fin 5))]) ''any'')"
    "\<not> isArray (get_prop (JObj [(''tier'', JStr ''vip''), (''all'', JStr ''x'')]) ''all'')"
    by (simp_all add: get_prop_def lookup_def)
  from any_clause [of "[(''tier'', JStr ''vip''), (''any'', JArr ?cs)]" ?cs digits_runtime ?input]
  have a: "matchConditions digits_runtime ?t ?input = Inr True"
    using g tot n1 n2 rest by simp
  from any_clause [of "[(''tier'', JStr ''vip''), (''any'', JNum (Fin 5))]" "[]" digits_runtime
      ?input]
  have b: "matchConditions digits_runtime (JObj [(''tier'', JStr ''vip''), (''any'', JNum (Fin 5))]) ?input
      = Inr True"
    using na rest by simp
  from any_clause [of "[(''tier'', JStr ''vip''), (''all'', JStr ''x'')]" "[]" digits_runtime
      ?input]
  have c: "matchConditions digits_runtime (JObj [(''tier'', JStr ''vip''), (''all'', JStr ''x'')]) ?input
      = Inr True"
    using na rest by simp
  from g n1 n2 na a b c show ?thesis by simp
qed

section \<open>Totality of the matcher\<close>

lemma and_then_returns: "\<not> isl r \<Longrightarrow> \<not> isl k \<Longrightarrow> \<not> isl (and_then r k)"
  by (cases r) (auto simp: and_then_def)

lemma every_r_returns: "\<forall>x\<in>set xs. \<not> isl (f x) \<Longrightarrow> \<not> isl (every_r f xs)"
  by (induction xs) (auto split: sum.splits)

lemma some_r_returns: "\<forall>x\<in>set xs. \<not> isl (f x) \<Longrightarrow> \<not> isl (some_r f xs)"
  by (induction xs) (auto split: sum.splits)

lemma ToNumber_throws: "(ToNumber rt bound = Inl TypeError) = (\<not> converts bound)"
  by (simp add: ToNumber_def)

lemma primitive_converts: "\<not> is_object bound \<Longrightarrow> converts bound"
  by (cases bound) simp_all

lemma bound_ok_returns: "converts bound \<Longrightarrow> \<exists>b. bound_ok rt cmp a bound = Inr b"
  by (auto simp: bound_ok_def ToNumber_def)

lemma compareValue_returns: "bounds_convert v \<Longrightarrow> \<not> isl (compareValue rt actual v)"
proof (cases actual)
  case (JNum a)
  assume "bounds_convert v"
  then have "\<not> isl (bound_ok rt cmp a (get_prop v k))"
    if "k \<in> set [''gte'', ''lte'', ''gt'', ''lt'']" for cmp k
    using that bound_ok_returns [of "get_prop v k" rt cmp a]
    by (auto simp: bounds_convert_def)
  with JNum show ?thesis by (simp add: and_then_returns)
qed simp_all

lemma matchField_returns: "sound_field fc \<Longrightarrow> \<not> isl (matchField rt input fc)"
  by (auto simp: sound_field_def matchField_def matchCondition_def compareValue_returns
      split: jsread.splits)

lemma is_object_not_null: "is_object c \<Longrightarrow> c \<noteq> JUndefined \<and> c \<noteq> JNull"
  by (cases c) simp_all

lemma well_shaped_returns: "well_shaped c \<Longrightarrow> \<not> isl (matchConditions rt c input)"
proof (induction c rule: well_shaped.induct)
  case (1 c)
  from "1.prems" have obj: "is_object c"
    and flds: "\<forall>fc\<in>set (own_entries c). sound_field fc"
    and alls: "\<forall>x\<in>set (elements (get_prop c ''all'')). well_shaped x"
    and anys: "\<forall>x\<in>set (elements (get_prop c ''any'')). well_shaped x"
    by (simp_all add: well_shaped.simps [of c] list_all_iff)
  have F: "\<not> isl (every_r (matchField rt input) (own_entries c))"
    using flds by (intro every_r_returns) (simp add: matchField_returns)
  have A: "\<not> isl (every_r (\<lambda>c. matchConditions rt c input) (elements (get_prop c ''all'')))"
    using alls "1.IH"(1) by (intro every_r_returns) simp
  have S: "\<not> isl (some_r (\<lambda>c. matchConditions rt c input) (elements (get_prop c ''any'')))"
    using anys "1.IH"(2) by (intro some_r_returns) simp
  from obj have nn: "c \<noteq> JUndefined" "c \<noteq> JNull" by (simp_all add: is_object_not_null)
  show ?case
    by (subst matchConditions.simps) (simp add: obj nn F A S and_then_returns)
qed

lemma unrecognized_fails:
  "is_object v \<Longrightarrow> \<not> isComparisonOperator v \<Longrightarrow> \<not> isInOperator v \<Longrightarrow>
   matchCondition rt v actual = Inr False"
  by (cases v; cases actual) (simp_all add: matchCondition_def)

text \<open>
  Claim C9, as stated, says that evaluation never throws, also on malformed shapes. It
  throws a \<open>TypeError\<close> in two of them. An \<open>all\<close> or \<open>any\<close> sequence with an entry that
  is not a tree: \<open>Object.entries(null)\<close> for a \<open>null\<close> entry, \<open>'all' in 5\<close> for a number.
  A comparison bound that cannot be converted to a primitive: in
  \<open>{q: {gte: {toString: 1}}}\<close> the bound has an own \<open>toString\<close> that is not a function,
  and \<open>5 >= bound\<close> throws.
\<close>

theorem non_tree_entry_counterexample:
  "matchConditions digits_runtime (JObj [(''all'', JArr [JNull])]) [] = Inl TypeError
   \<and> matchConditions digits_runtime (JObj [(''any'', JArr [JNum (Fin 5)])]) [] = Inl TypeError
   \<and> matchConditions digits_runtime
        (JObj [(''q'', JObj [(''gte'', JObj [(''toString'', JNum (Fin 1))])])])
        [(''q'', JNum (Fin 5))] = Inl TypeError"
  by code_simp

text \<open>
  Claim C9, amended. The matcher returns a boolean, for every runtime and every input, on
  every condition tree that is an object, whose \<open>all\<close> and \<open>any\<close> sequences hold only
  such objects, and whose comparison bounds convert to a number. The conversion of a
  bound throws exactly when the bound is an object with an own \<open>toString\<close> key or an
  array that holds one; every bound that is not an object or array (a number, a string,
  a boolean, \<open>null\<close>) converts, and the comparison with it is a boolean. A constraint
  that is an object but neither a comparison operator nor an \<open>in\<close> operator with a list
  (such as \<open>{in: 5}\<close> or \<open>{between: [1, 2]}\<close>) matches nothing; the empty tree matches
  everything.
\<close>

theorem matcher_total:
  "(well_shaped c \<longrightarrow> (\<exists>b. matchConditions rt c input = Inr b))
   \<and> (ToNumber rt bound = Inl TypeError) = (\<not> converts bound)
   \<and> (\<not> is_object bound \<longrightarrow> converts bound)
   \<and> (converts bound \<longrightarrow> (\<exists>b. bound_ok rt cmp a bound = Inr b))
   \<and> (is_object v \<and> \<not> isComparisonOperator v \<and> \<not> isInOperator v \<longrightarrow>
        matchCondition rt v actual = Inr False)
   \<and> matchConditions rt (JObj []) input = Inr True"
proof -
  have "\<exists>b. matchConditions rt c input = Inr b" if "well_shaped c"
    using well_shaped_returns [OF that, of rt input]
    by (cases "matchConditions rt c input") simp_all
  then show ?thesis
    using unrecognized_fails [of v rt actual] matchConditions_empty [of rt input]
      ToNumber_throws [of rt bound] primitive_converts [of bound]
      bound_ok_returns [of bound rt cmp a]
    by blast
qed

theorem matcher_total_witness:
  "well_shaped
     (JObj [(''q'', JObj [(''gte'', JStr ''5''), (''lte'', JNull)]),
            (''all'', JArr [JObj [(''tier'', JStr ''vip'')], JObj [(''any'', JArr [])]])])
   \<and> converts (JStr ''5'')
   \<and> is_object (JObj [(''in'', JNum (Fin 5))])
   \<and> \<not> isComparisonOperator (JObj [(''in'', JNum (Fin 5))])
   \<and> \<not> isInOperator (JObj [(''in'', JNum (Fin 5))])
   \<and> matchConditions digits_runtime
        (JObj [(''q'', JObj [(''gte'', JStr ''5''), (''lte'', JNull)]),
               (''all'', JArr [JObj [(''tier'', JStr ''vip'')], JObj [(''any'', JArr [])]])])
        [(''q'', JNum (Fin 50)), (''tier'', JStr ''vip'')] = Inr False
   \<and> bound_ok digits_runtime num_ge (Fin 10) (JStr ''5'') = Inr True
   \<and> matchCondition digits_runtime (JObj [(''in'', JNum (Fin 5))]) (JNum (Fin 5)) = Inr False"
proof -
  let ?c = "JObj [(''q'', JObj [(''gte'', JStr ''5''), (''lte'', JNull)]),
                  (''all'', JArr [JObj [(''tier'', JStr ''vip'')], JObj [(''any'', JArr [])]])]"
  let ?input = "[(''q'', JNum (Fin 50)), (''tier'', JStr ''vip'')]"
  let ?v = "JObj [(''in'', JNum (Fin 5))]"
  have ws: "well_shaped ?c" by code_simp
  have cv: "converts (JStr ''5'')" by simp
  have shape: "is_object ?v" "\<not> isComparisonOperator ?v" "\<not> isInOperator ?v"
    by (simp_all add: isComparisonOperator_def isInOperator_def own_keys_def get_prop_def
        lookup_def)
  have val: "matchConditions digits_runtime ?c ?input = Inr False"
    "bound_ok digits_runtime num_ge (Fin 10) (JStr ''5'') = Inr True"
    by code_simp+
  from matcher_total [of ?c digits_runtime ?input "JStr ''5''" num_ge "Fin 10" ?v "JNum (Fin 5)"]
  have "\<exists>b. matchConditions digits_runtime ?c ?input = Inr b"
    and "\<exists>b. bound_ok digits_runtime num_ge (Fin 10) (JStr ''5'') = Inr b"
    and "matchCondition digits_runtime ?v (JNum (Fin 5)) = Inr False"
    using ws cv shape by simp_all
  with ws cv shape val show ?thesis by simp
qed

section \<open>The reason of a failed test\<close>
















end
